theory Spec2Isabelle
  imports Main "HOL-Library.Sublist"
begin

section \<open>Data model\<close>

text \<open>
  A Python \<open>str\<close> is a sequence of Unicode code points and \<open>len\<close> counts code points,
  so a string is modelled as a list of code point numbers. \<open>ascii\<close> embeds the ASCII
  literals of the source.
\<close>

type_synonym codepoint = nat
type_synonym str = "codepoint list"

definition ascii :: "string \<Rightarrow> str" where
  "ascii s = map of_char s"

text \<open>
  Exceptions of the source are values. \<open>ExternalError\<close> stands for whatever an external
  collaborator (chat transport, completion service, transcription pipeline) raises.
\<close>

datatype error = IndexError | KeyError | TypeError | AttributeError | ExternalError string

text \<open>One entry of a history: the dict \<^verbatim>\<open>{"role": role, "content": content}\<close>.\<close>

record turn =
  role :: str
  content :: str

text \<open>
  \<^verbatim>\<open>update.message.from_user.username\<close> is an optional string on the platform; it is the
  key of \<^verbatim>\<open>messages_list\<close>. Every list stored in \<^verbatim>\<open>messages_list\<close> is created by
  \<^verbatim>\<open>append_history\<close> for one key and is referenced from that entry only (callers drop
  the returned list), so the dict is modelled as a map to list values.
\<close>

type_synonym identity = "str option"
type_synonym table = "identity \<rightharpoonup> turn list"

section \<open>History store\<close>

text \<open>\<^verbatim>\<open>sum(len(msg["content"]) for msg in msg_list)\<close>\<close>

definition total_length :: "turn list \<Rightarrow> int" where
  "total_length msg_list = sum_list (map (\<lambda>msg. int (length (content msg))) msg_list)"

text \<open>
  The loop \<^verbatim>\<open>while total_length > 4096: msg = msg_list.pop(0); total_length -= len(msg["content"])\<close>.
  \<open>n\<close> is the running \<^verbatim>\<open>total_length\<close>, and the second component of the result is the
  list as the loop leaves it. \<^verbatim>\<open>pop(0)\<close> on an empty list raises IndexError.
\<close>

fun evict_loop :: "int \<Rightarrow> turn list \<Rightarrow> (error + unit) \<times> turn list" where
  "evict_loop n msg_list =
     (if n > 4096 then
        (case msg_list of
           [] \<Rightarrow> (Inl IndexError, [])
         | msg # rest \<Rightarrow> evict_loop (n - int (length (content msg))) rest)
      else (Inr (), msg_list))"

declare evict_loop.simps [simp del]

definition append_history ::
  "identity \<Rightarrow> str \<Rightarrow> str \<Rightarrow> table \<Rightarrow> (error + turn list) \<times> table" where
  "append_history username content' role' messages_list =
     (let messages_list1 =
            (if messages_list username = None then messages_list(username \<mapsto> [])
             else messages_list);
          msg_list = (case messages_list1 username of None \<Rightarrow> [] | Some l \<Rightarrow> l);
          msg_list1 = msg_list @ [\<lparr>role = role', content = content'\<rparr>]
      in case evict_loop (total_length msg_list1) msg_list1 of
           (Inl e, msg_list2) \<Rightarrow> (Inl e, messages_list1(username \<mapsto> msg_list2))
         | (Inr _, msg_list2) \<Rightarrow> (Inr msg_list2, messages_list1(username \<mapsto> msg_list2)))"

text \<open>\<^verbatim>\<open>messages_list.get(username, []).clear()\<close>\<close>

definition clear_history :: "identity \<Rightarrow> table \<Rightarrow> table" where
  "clear_history username messages_list =
     (case messages_list username of
        None \<Rightarrow> messages_list
      | Some msg_list \<Rightarrow> messages_list(username \<mapsto> []))"

text \<open>
  The table after a sequence of appends for one identity, each given as (content, role).
\<close>

definition run_appends :: "identity \<Rightarrow> (str \<times> str) list \<Rightarrow> table \<Rightarrow> table" where
  "run_appends username ops messages_list =
     foldl (\<lambda>t (c, r). snd (append_history username c r t)) messages_list ops"

text \<open>
  The specification's result of an append, in its own words: the longest suffix of a
  list of turns whose contents fit a budget, found by trying the suffixes from the
  longest to the shortest.
\<close>

fun longest_suffix_within :: "int \<Rightarrow> turn list \<Rightarrow> turn list" where
  "longest_suffix_within b [] = []"
| "longest_suffix_within b (x # xs) =
     (if total_length (x # xs) \<le> b then x # xs else longest_suffix_within b xs)"

section \<open>Access control\<close>

text \<open>
  \<^verbatim>\<open>allowed_usernames\<close> is read once from the process environment; it is a parameter here.
  \<^verbatim>\<open>len(allowed_usernames) == 0 or username in allowed_usernames\<close>, where a sender
  without a username (\<open>None\<close>) equals no element of the list.
\<close>

definition is_allowed_user :: "str list \<Rightarrow> identity \<Rightarrow> bool" where
  "is_allowed_user allowed_usernames username =
     (length allowed_usernames = 0 \<or> username \<in> set (map Some allowed_usernames))"

section \<open>Inbound events\<close>

text \<open>
  The fields of the platform's objects that the program reads: \<^verbatim>\<open>User.username\<close>;
  \<^verbatim>\<open>Message.text\<close>, \<^verbatim>\<open>.from_user\<close>, \<^verbatim>\<open>.reply_to_message\<close>, \<^verbatim>\<open>.chat_id\<close>;
  \<^verbatim>\<open>Chat.id\<close>, \<^verbatim>\<open>.type\<close>; \<^verbatim>\<open>Update.message\<close>, \<^verbatim>\<open>.effective_chat\<close>. Optional fields
  are options.
\<close>

datatype user = User (user_username: "str option")

datatype message = Message
  (msg_text: "str option")
  (from_user: "user option")
  (reply_to_message: "message option")
  (chat_id: int)

datatype chat = Chat (chat_ident: int) (chat_type: str)

datatype update = Update (message: "message option") (effective_chat: chat)

section \<open>Event classifier\<close>

text \<open>Python's \<^verbatim>\<open>needle in haystack\<close> on strings: a contiguous occurrence.\<close>

fun str_contains :: "str \<Rightarrow> str \<Rightarrow> bool" where
  "str_contains needle [] = (needle = [])"
| "str_contains needle (c # cs) = (prefix needle (c # cs) \<or> str_contains needle cs)"

text \<open>
  The state of a \<^verbatim>\<open>DirectOrMentionInGroup\<close> object: \<^verbatim>\<open>self.bot.username\<close> and the
  memoised \<^verbatim>\<open>self.username\<close>, \<open>None\<close> after \<^verbatim>\<open>__init__\<close>.
\<close>

record DirectOrMentionInGroup =
  bot_username :: str
  self_username :: "str option"

definition init_DirectOrMentionInGroup :: "str \<Rightarrow> DirectOrMentionInGroup" where
  "init_DirectOrMentionInGroup bot_name = \<lparr>bot_username = bot_name, self_username = None\<rparr>"

text \<open>
  The value of \<^verbatim>\<open>self.username\<close> after
  \<^verbatim>\<open>if not self.username: self.username = self.bot.username\<close>
  (\<open>None\<close> and the empty string are falsy).
\<close>

definition resolve_username :: "DirectOrMentionInGroup \<Rightarrow> str" where
  "resolve_username self =
     (case self_username self of
        None \<Rightarrow> bot_username self
      | Some n \<Rightarrow> if n = [] then bot_username self else n)"

text \<open>
  What \<^verbatim>\<open>filter\<close> returns: \<^verbatim>\<open>True\<close>, \<^verbatim>\<open>False\<close>, or \<^verbatim>\<open>None\<close> when the chain of
  \<^verbatim>\<open>and\<close> stops at an absent \<^verbatim>\<open>reply_to_message\<close> or \<^verbatim>\<open>from_user\<close>. The dispatcher
  tests the result for truth.
\<close>

datatype pyval = PyBool bool | PyNone


definition filter_DirectOrMentionInGroup ::
  "DirectOrMentionInGroup \<Rightarrow> update \<Rightarrow> pyval \<times> DirectOrMentionInGroup" where
  "filter_DirectOrMentionInGroup self upd =
     (case message upd of
        None \<Rightarrow> (PyBool False, self)
      | Some m \<Rightarrow>
          (case msg_text m of
             None \<Rightarrow> (PyBool False, self)
           | Some txt \<Rightarrow>
               if txt = [] then (PyBool False, self)
               else
                 (let self1 = self\<lparr>self_username := Some (resolve_username self)\<rparr>;
                      is_group_chat =
                        (chat_type (effective_chat upd) \<in> set [ascii ''group'', ascii ''supergroup'']);
                      mentioned = str_contains (ascii ''@'' @ resolve_username self) txt;
                      is_reply_to_bot =
                        (case reply_to_message m of
                           None \<Rightarrow> PyNone
                         | Some orig \<Rightarrow>
                             (case from_user orig of
                                None \<Rightarrow> PyNone
                              | Some author \<Rightarrow>
                                  PyBool (user_username author = Some (resolve_username self))))
                  in (if \<not> is_group_chat then PyBool True
                      else if mentioned then PyBool True
                      else is_reply_to_bot,
                      self1))))"

section \<open>External collaborators and the process state\<close>

text \<open>
  The calls the program issues to its collaborators, in order: \<^verbatim>\<open>send_message(chat_id, text)\<close>,
  \<^verbatim>\<open>deleteMessage(message_id, chat_id)\<close>, \<^verbatim>\<open>ChatCompletion.create(messages=...)\<close>,
  \<^verbatim>\<open>download_audio\<close>, \<^verbatim>\<open>convert_audio_to_wav\<close> and \<^verbatim>\<open>Audio.transcribe\<close>.
\<close>

datatype call =
    SendMessage int str
  | DeleteMessage int int
  | ChatCompletionCreate "turn list"
  | DownloadAudio
  | ConvertAudioToWav str
  | AudioTranscribe str

text \<open>The process state: \<^verbatim>\<open>messages_list\<close> and the calls issued so far.\<close>

record world =
  store :: table
  trace :: "call list"

text \<open>
  A completion as the program reads it: \<^verbatim>\<open>completion.choices\<close>, each choice with its
  \<^verbatim>\<open>message\<close> dict.
\<close>

datatype choice = Choice (choice_message: "str \<rightharpoonup> str")

datatype completion = Completion (choices: "choice list")

text \<open>
  The collaborators are parameters: each answers a call, given the calls issued before
  it, with a value or with the exception it raises. \<open>random_draw\<close> is the entropy that
  \<^verbatim>\<open>random.choice\<close> consumes. \<^verbatim>\<open>download_audio\<close> and \<^verbatim>\<open>convert_audio_to_wav\<close> come from
  the \<^verbatim>\<open>helpers\<close> module; their results are opaque payloads.
\<close>

record env =
  allowed_usernames :: "str list"
  send_message :: "call list \<Rightarrow> int \<Rightarrow> str \<Rightarrow> error + int"
  deleteMessage :: "call list \<Rightarrow> int \<Rightarrow> int \<Rightarrow> error + unit"
  ChatCompletion_create :: "call list \<Rightarrow> turn list \<Rightarrow> error + completion"
  random_draw :: "call list \<Rightarrow> nat"
  download_audio :: "call list \<Rightarrow> update \<Rightarrow> error + str"
  convert_audio_to_wav :: "call list \<Rightarrow> str \<Rightarrow> error + str"
  Audio_transcribe :: "call list \<Rightarrow> str \<Rightarrow> error + (str \<rightharpoonup> str)"

text \<open>
  Sequencing of statements that may raise: the first exception ends the run, and the
  state reached so far stays.
\<close>

type_synonym 'a action = "world \<Rightarrow> (error + 'a) \<times> world"

definition return :: "'a \<Rightarrow> 'a action" where
  "return x w = (Inr x, w)"

definition raise :: "error \<Rightarrow> 'a action" where
  "raise e w = (Inl e, w)"

definition then_do :: "'a action \<Rightarrow> ('a \<Rightarrow> 'b action) \<Rightarrow> 'b action" where
  "then_do m f w = (case m w of (Inl e, w') \<Rightarrow> (Inl e, w') | (Inr x, w') \<Rightarrow> f x w')"

definition lift :: "error + 'a \<Rightarrow> 'a action" where
  "lift r w = (r, w)"

definition issue :: "call \<Rightarrow> (call list \<Rightarrow> error + 'a) \<Rightarrow> 'a action" where
  "issue c answer w = (answer (trace w), w\<lparr>trace := trace w @ [c]\<rparr>)"

definition bot_send_message :: "env \<Rightarrow> int \<Rightarrow> str \<Rightarrow> int action" where
  "bot_send_message env cid txt =
     issue (SendMessage cid txt) (\<lambda>tr. send_message env tr cid txt)"

definition bot_deleteMessage :: "env \<Rightarrow> int \<Rightarrow> int \<Rightarrow> unit action" where
  "bot_deleteMessage env mid cid =
     issue (DeleteMessage mid cid) (\<lambda>tr. deleteMessage env tr mid cid)"

text \<open>\<^verbatim>\<open>append_history\<close> and \<^verbatim>\<open>clear_history\<close> acting on the process state.\<close>

definition do_append_history :: "identity \<Rightarrow> str \<Rightarrow> str \<Rightarrow> (turn list) action" where
  "do_append_history username content' role' w =
     (case append_history username content' role' (store w) of
        (res, messages_list') \<Rightarrow> (res, w\<lparr>store := messages_list'\<rparr>))"

definition do_clear_history :: "identity \<Rightarrow> unit action" where
  "do_clear_history username w = (Inr (), w\<lparr>store := clear_history username (store w)\<rparr>)"

text \<open>\<^verbatim>\<open>update.message.from_user.username\<close>; an absent object raises AttributeError.\<close>

definition sender_username :: "update \<Rightarrow> error + identity" where
  "sender_username upd =
     (case message upd of
        None \<Rightarrow> Inl AttributeError
      | Some m \<Rightarrow>
          (case from_user m of
             None \<Rightarrow> Inl AttributeError
           | Some u \<Rightarrow> Inr (user_username u)))"

section \<open>Message handlers\<close>

definition rejection_text :: str where
  "rejection_text = ascii ''Sorry, you are not allowed to use this bot''"

definition handle_allowed_usernames :: "env \<Rightarrow> update \<Rightarrow> bool action" where
  "handle_allowed_usernames env upd =
     then_do (lift (sender_username upd)) (\<lambda>username.
       if \<not> is_allowed_user (allowed_usernames env) username then
         then_do (bot_send_message env (chat_ident (effective_chat upd)) rejection_text)
           (\<lambda>_. return False)
       else return True)"

section \<open>Completion orchestrator\<close>

definition fallback_choices :: "str list" where
  "fallback_choices =
     [ascii ''Oops, I must've tripped over my own code. Give me a moment to untangle myself! '' @ [0x1F643],
      ascii ''Error 404: Witty response not found. Stand by for reboot. '' @ [0x1F680],
      ascii ''Hold on, I think I've misplaced my 1s and 0s. Let me find them and get back to you! '' @ [0x1F50D],
      ascii ''My circuits are overheating from all the awesomeness. Give me a second to cool down! '' @ [0x2744, 0xFE0F],
      ascii ''Hold on, I'm buffering'' @ [0x2026] @ ascii '' just like the good ol' days of dial-up internet. '' @ [0x1F570, 0xFE0F],
      ascii ''I've got a case of digital hiccups! Bear with me while I sip some virtual water. '' @ [0x1F964],
      ascii ''I'd tell you a joke, but I think I just forgot the punchline. Hang on while I remember it. '' @ [0x1F605],
      ascii ''I'm experiencing a minor glitch in the matrix. Let me reboot and we'll be back to normal. '' @ [0x1F504],
      ascii ''Seems like I accidentally hit the snooze button on my internal clock. Let me wake up and get back to you! '' @ [0x23F0],
      ascii ''I'm currently lost in the cloud, but don't worry, I'll navigate my way back to you shortly! '' @ [0x2601, 0xFE0F],
      ascii ''Hold tight, I'm just taking a quick coffee break to recharge my bytes. Be right back! '' @ [0x2615],
      ascii ''Apologies, I'm temporarily stuck in the emoji dimension. I'll escape shortly! '' @ [0x1F635, 0x200D, 0x1F4AB],
      ascii ''I think I just blue-screened myself laughing. Let me reboot and I'll be right with you. '' @ [0x1F300],
      ascii ''One moment please, I'm currently in a heated debate with my firewall. '' @ [0x1F525],
      ascii ''Hang on, I'm in the middle of a software update: 'Installing Humor 2.0.' Should be done soon! '' @ [0x1F4F2]]"

text \<open>
  \<^verbatim>\<open>random.choice(seq)\<close>: the element at an index below \<^verbatim>\<open>len(seq)\<close>, IndexError on an
  empty sequence.
\<close>

definition random_choice_seq :: "nat \<Rightarrow> 'a list \<Rightarrow> error + 'a" where
  "random_choice_seq r xs = (if xs = [] then Inl IndexError else Inr (xs ! (r mod length xs)))"

text \<open>\<^verbatim>\<open>completion.choices[0].message["content"]\<close>\<close>

definition first_content :: "completion \<Rightarrow> error + str" where
  "first_content c =
     (case choices c of
        [] \<Rightarrow> Inl IndexError
      | ch # _ \<Rightarrow>
          (case choice_message ch (ascii ''content'') of
             None \<Rightarrow> Inl KeyError
           | Some s \<Rightarrow> Inr s))"

text \<open>
  The \<^verbatim>\<open>try\<close> block is the call and the read of its result; \<^verbatim>\<open>except Exception\<close> takes
  every value of \<open>error\<close>.
\<close>

definition generate_gpt_response :: "env \<Rightarrow> identity \<Rightarrow> str action" where
  "generate_gpt_response env username w =
     (let messages = (case store w username of None \<Rightarrow> [] | Some msg_list \<Rightarrow> msg_list)
      in case then_do
                (issue (ChatCompletionCreate messages)
                   (\<lambda>tr. ChatCompletion_create env tr messages))
                (\<lambda>completion. lift (first_content completion)) w of
           (Inr s, w') \<Rightarrow> (Inr s, w')
         | (Inl e, w') \<Rightarrow>
             (random_choice_seq (random_draw env (trace w')) fallback_choices, w'))"

section \<open>Text, voice and reset handlers\<close>

definition newline :: codepoint where
  "newline = 10"

text \<open>
  Lines 75 to 77: the text that becomes the user turn. \<^verbatim>\<open>"> " + None\<close> and
  \<^verbatim>\<open>... + None\<close> raise TypeError. A turn's content is a string here, as in the data
  model of the specification. For an update without text that is not a reply the code
  would pass \<^verbatim>\<open>None\<close> on: \<^verbatim>\<open>append_history\<close> stores a turn with content \<^verbatim>\<open>None\<close>
  (line 50) and \<^verbatim>\<open>len(None)\<close> then raises TypeError (line 52). The model gives the
  TypeError and not the stored turn. The handler is registered behind \<^verbatim>\<open>filters.TEXT\<close>
  and the classifier, which both refuse an update without text, so this input does
  not reach it, and no property below is stated for it.
\<close>

definition effective_text :: "message \<Rightarrow> error + str" where
  "effective_text m =
     (case reply_to_message m of
        None \<Rightarrow> (case msg_text m of None \<Rightarrow> Inl TypeError | Some t \<Rightarrow> Inr t)
      | Some orig \<Rightarrow>
          (case msg_text orig of
             None \<Rightarrow> Inl TypeError
           | Some q \<Rightarrow>
               (case msg_text m of
                  None \<Rightarrow> Inl TypeError
                | Some t \<Rightarrow> Inr (ascii ''> '' @ q @ ascii '' '' @ [newline, newline] @ t))))"

text \<open>\<^verbatim>\<open>update.message\<close>, read for one of its attributes.\<close>

definition get_message :: "update \<Rightarrow> error + message" where
  "get_message upd = (case message upd of None \<Rightarrow> Inl AttributeError | Some m \<Rightarrow> Inr m)"

definition process_text_message :: "env \<Rightarrow> update \<Rightarrow> unit action" where
  "process_text_message env upd =
     then_do (handle_allowed_usernames env upd) (\<lambda>allowed.
       if \<not> allowed then return ()
       else
         then_do (bot_send_message env (chat_ident (effective_chat upd)) [0x1F914]) (\<lambda>thinking.
         then_do (lift (get_message upd)) (\<lambda>m.
         then_do (lift (effective_text m)) (\<lambda>msg_text'.
         then_do (lift (sender_username upd)) (\<lambda>username.
         then_do (do_append_history username msg_text' (ascii ''user'')) (\<lambda>_.
         then_do (generate_gpt_response env username) (\<lambda>response.
         then_do (do_append_history username response (ascii ''assistant'')) (\<lambda>_.
         then_do (bot_deleteMessage env thinking (chat_id m)) (\<lambda>_.
         then_do (bot_send_message env (chat_ident (effective_chat upd)) response) (\<lambda>_.
           return ()))))))))))"

text \<open>\<^verbatim>\<open>get_audio_transcription\<close>: download, convert, transcribe, then \<^verbatim>\<open>transcript["text"]\<close>.\<close>

definition get_audio_transcription :: "env \<Rightarrow> update \<Rightarrow> str action" where
  "get_audio_transcription env upd =
     then_do (issue DownloadAudio (\<lambda>tr. download_audio env tr upd)) (\<lambda>new_file.
     then_do (issue (ConvertAudioToWav new_file) (\<lambda>tr. convert_audio_to_wav env tr new_file)) (\<lambda>voice.
     then_do (issue (AudioTranscribe voice) (\<lambda>tr. Audio_transcribe env tr voice)) (\<lambda>transcript.
       case transcript (ascii ''text'') of
         None \<Rightarrow> raise KeyError
       | Some t \<Rightarrow> return t)))"

definition process_audio_message :: "env \<Rightarrow> update \<Rightarrow> unit action" where
  "process_audio_message env upd =
     then_do (handle_allowed_usernames env upd) (\<lambda>allowed.
       if \<not> allowed then return ()
       else
         then_do (get_audio_transcription env upd) (\<lambda>transcript.
         then_do (lift (sender_username upd)) (\<lambda>username.
         then_do (do_append_history username transcript (ascii ''user'')) (\<lambda>_.
         then_do (generate_gpt_response env username) (\<lambda>response.
         then_do (do_append_history username response (ascii ''assistant'')) (\<lambda>_.
         then_do (bot_send_message env (chat_ident (effective_chat upd)) response) (\<lambda>_.
           return ())))))))"

text \<open>\<^verbatim>\<open>reset_history\<close> returns \<^verbatim>\<open>None\<close> when access is denied and \<^verbatim>\<open>messages_list\<close> otherwise.\<close>

definition reset_history :: "env \<Rightarrow> update \<Rightarrow> (table option) action" where
  "reset_history env upd =
     then_do (handle_allowed_usernames env upd) (\<lambda>allowed.
       if \<not> allowed then return None
       else
         then_do (lift (sender_username upd)) (\<lambda>username.
         then_do (do_clear_history username) (\<lambda>_.
         then_do (bot_send_message env (chat_ident (effective_chat upd))
                    (ascii ''Messages history cleaned'')) (\<lambda>_.
           (\<lambda>w. (Inr (Some (store w)), w))))))"

section \<open>Scenarios\<close>

text \<open>
  Concrete collaborators and events for the scenarios of the specification: a transport
  that accepts every message, a completion service and a transcription service with a
  fixed answer, and an event from a named sender in a chat of a given type.
\<close>

definition scenario_env ::
  "str list \<Rightarrow> (error + completion) \<Rightarrow> (error + (str \<rightharpoonup> str)) \<Rightarrow> env" where
  "scenario_env allowed reply transcript =
     \<lparr>allowed_usernames = allowed,
      send_message = (\<lambda>tr cid txt. Inr (int (length tr))),
      deleteMessage = (\<lambda>tr mid cid. Inr ()),
      ChatCompletion_create = (\<lambda>tr msgs. reply),
      random_draw = (\<lambda>tr. 1),
      download_audio = (\<lambda>tr upd. Inr (ascii ''voice.oga'')),
      convert_audio_to_wav = (\<lambda>tr f. Inr (ascii ''voice.wav'')),
      Audio_transcribe = (\<lambda>tr v. transcript)\<rparr>"

definition scenario_update ::
  "string \<Rightarrow> str option \<Rightarrow> message option \<Rightarrow> string \<Rightarrow> update" where
  "scenario_update name txt reply kind =
     Update (Some (Message txt (Some (User (Some (ascii name)))) reply 42))
       (Chat 42 (ascii kind))"

definition fresh_world :: world where
  "fresh_world = \<lparr>store = Map.empty, trace = []\<rparr>"

section \<open>ASCII literals\<close>

lemma ascii_eq_iff [simp]: "ascii s = ascii t \<longleftrightarrow> s = t"
  unfolding ascii_def by (rule inj_map_eq_map) (simp add: inj_def)

lemma ascii_is_Nil [simp]: "ascii s = [] \<longleftrightarrow> s = []"
  by (simp add: ascii_def)

lemma ascii_Nil [simp]: "ascii [] = []"
  by (simp add: ascii_def)

lemma length_ascii [simp]: "length (ascii s) = length s"
  by (simp add: ascii_def)

section \<open>Properties of the history store\<close>

lemma total_length_Nil [simp]: "total_length [] = 0"
  by (simp add: total_length_def)

lemma total_length_Cons [simp]:
  "total_length (m # ms) = int (length (content m)) + total_length ms"
  by (simp add: total_length_def)

lemma total_length_append [simp]:
  "total_length (xs @ ys) = total_length xs + total_length ys"
  by (simp add: total_length_def)

lemma total_length_nonneg: "0 \<le> total_length ms"
  by (induction ms) auto

lemma evict_loop_longest_suffix:
  "evict_loop (total_length ms) ms = (Inr (), longest_suffix_within 4096 ms)"
proof (induction ms)
  case Nil
  show ?case by (simp add: evict_loop.simps)
next
  case (Cons m ms)
  show ?case
  proof (cases "total_length (m # ms) > 4096")
    case True
    then have "evict_loop (total_length (m # ms)) (m # ms) = evict_loop (total_length ms) ms"
      by (subst evict_loop.simps) simp
    with True Cons show ?thesis by simp
  next
    case False
    then show ?thesis by (subst evict_loop.simps) simp
  qed
qed

lemma longest_suffix_within_suffix: "suffix (longest_suffix_within b ms) ms"
  by (induction ms) (auto simp: suffix_Cons)

lemma longest_suffix_within_fits:
  "0 \<le> b \<Longrightarrow> total_length (longest_suffix_within b ms) \<le> b"
  by (induction ms) auto

lemma longest_suffix_within_greatest:
  "suffix s ms \<Longrightarrow> total_length s \<le> b \<Longrightarrow> suffix s (longest_suffix_within b ms)"
  by (induction ms) (auto simp: suffix_Cons)

lemma nonempty_suffix_snoc_length:
  assumes "suffix s (h @ [t])" and "s \<noteq> []"
  shows "int (length (content t)) \<le> total_length s"
proof -
  from assms(1) obtain p where eq: "h @ [t] = p @ s"
    by (auto simp: suffix_def)
  from assms(2) have s: "s = butlast s @ [last s]" by simp
  from eq assms(2) have "last s = t"
    by (metis last_appendR last_snoc)
  with s have "total_length s = total_length (butlast s) + int (length (content t))"
    by (metis total_length_append total_length_Cons total_length_Nil add.right_neutral)
  then show ?thesis using total_length_nonneg [of "butlast s"] by simp
qed

lemma append_history_eq:
  "append_history u c r tbl =
     (let kept = longest_suffix_within 4096
                   ((case tbl u of None \<Rightarrow> [] | Some l \<Rightarrow> l) @ [\<lparr>role = r, content = c\<rparr>])
      in (Inr kept, tbl(u \<mapsto> kept)))"
  by (cases "tbl u") (simp_all add: append_history_def Let_def evict_loop_longest_suffix)

lemma run_appends_snoc:
  "run_appends u (ops @ [(c, r)]) tbl = snd (append_history u c r (run_appends u ops tbl))"
  by (simp add: run_appends_def)

text \<open>
  Claim C1. After any sequence \<open>ops\<close> of appends to one identity's history, from any
  table, one more append returns and stores a history whose content lengths sum to at
  most 4096; so the bound holds after each append of every sequence.
\<close>

theorem append_history_within_budget:
  "\<exists>h. append_history u c r (run_appends u ops tbl) = (Inr h, run_appends u (ops @ [(c, r)]) tbl)
       \<and> run_appends u (ops @ [(c, r)]) tbl u = Some h
       \<and> total_length h \<le> 4096"
  by (simp add: run_appends_snoc append_history_eq Let_def longest_suffix_within_fits)

text \<open>
  Claim C2. For every table, identity \<open>u\<close> with previous history \<open>h\<close> (empty when
  \<open>u\<close> is not a key) and every new turn, \<open>append_history\<close> returns and stores
  \<open>kept\<close>, the longest suffix of \<open>h @ [turn]\<close> whose contents sum to at most 4096: it
  is such a suffix, and every such suffix is a suffix of it and no longer than it. The
  role plays no part, and a new content longer than 4096 leaves the history empty.
\<close>

theorem append_history_longest_suffix:
  "\<exists>kept. append_history u c r tbl = (Inr kept, tbl(u \<mapsto> kept))
     \<and> kept = longest_suffix_within 4096 ((case tbl u of None \<Rightarrow> [] | Some l \<Rightarrow> l) @ [\<lparr>role = r, content = c\<rparr>])
     \<and> suffix kept ((case tbl u of None \<Rightarrow> [] | Some l \<Rightarrow> l) @ [\<lparr>role = r, content = c\<rparr>])
     \<and> total_length kept \<le> 4096
     \<and> (\<forall>s. suffix s ((case tbl u of None \<Rightarrow> [] | Some l \<Rightarrow> l) @ [\<lparr>role = r, content = c\<rparr>]) \<and> total_length s \<le> 4096
            \<longrightarrow> suffix s kept \<and> length s \<le> length kept)
     \<and> (4096 < length c \<longrightarrow> kept = [])"
proof -
  define h where "h = (case tbl u of None \<Rightarrow> [] | Some l \<Rightarrow> l)"
  define t where "t = \<lparr>role = r, content = c\<rparr>"
  define kept where "kept = longest_suffix_within 4096 (h @ [t])"
  have run: "append_history u c r tbl = (Inr kept, tbl(u \<mapsto> kept))"
    by (simp add: append_history_eq Let_def kept_def h_def t_def)
  have suf: "suffix kept (h @ [t])"
    unfolding kept_def by (rule longest_suffix_within_suffix)
  have fits: "total_length kept \<le> 4096"
    unfolding kept_def by (rule longest_suffix_within_fits) simp
  have greatest: "suffix s kept \<and> length s \<le> length kept"
    if "suffix s (h @ [t])" "total_length s \<le> 4096" for s
    using longest_suffix_within_greatest [OF that] suffix_length_le
    unfolding kept_def by blast
  have over: "kept = []" if "4096 < length c"
  proof (rule ccontr)
    assume "kept \<noteq> []"
    from nonempty_suffix_snoc_length [OF suf this] have "int (length c) \<le> total_length kept"
      by (simp add: t_def)
    with fits that show False by simp
  qed
  show ?thesis
    using run suf fits greatest over unfolding h_def t_def kept_def by blast
qed

theorem append_history_longest_suffix_witness:
  "fst (append_history (Some (ascii ''bob'')) (replicate 20 122) (ascii ''user'')
         [Some (ascii ''bob'') \<mapsto>
            [\<lparr>role = ascii ''user'', content = replicate 2000 120\<rparr>,
             \<lparr>role = ascii ''assistant'', content = replicate 2090 121\<rparr>]])
     = Inr [\<lparr>role = ascii ''assistant'', content = replicate 2090 121\<rparr>,
            \<lparr>role = ascii ''user'', content = replicate 20 122\<rparr>]
   \<and> suffix [\<lparr>role = ascii ''user'', content = replicate 20 122\<rparr>]
        ([\<lparr>role = ascii ''user'', content = replicate 2000 120\<rparr>,
          \<lparr>role = ascii ''assistant'', content = replicate 2090 121\<rparr>]
         @ [\<lparr>role = ascii ''user'', content = replicate 20 122\<rparr>])
   \<and> total_length [\<lparr>role = ascii ''user'', content = replicate 20 122\<rparr>] \<le> 4096
   \<and> 4096 < length (replicate 4097 (122::nat))
   \<and> fst (append_history (Some (ascii ''bob'')) (replicate 4097 122) (ascii ''user'')
         [Some (ascii ''bob'') \<mapsto>
            [\<lparr>role = ascii ''user'', content = replicate 2000 120\<rparr>,
             \<lparr>role = ascii ''assistant'', content = replicate 2090 121\<rparr>]]) = Inr []"
  using append_history_longest_suffix
    [of "Some (ascii ''bob'')" "replicate 20 122" "ascii ''user''"
        "[Some (ascii ''bob'') \<mapsto>
            [\<lparr>role = ascii ''user'', content = replicate 2000 120\<rparr>,
             \<lparr>role = ascii ''assistant'', content = replicate 2090 121\<rparr>]]"]
    append_history_longest_suffix
    [of "Some (ascii ''bob'')" "replicate 4097 122" "ascii ''user''"
        "[Some (ascii ''bob'') \<mapsto>
            [\<lparr>role = ascii ''user'', content = replicate 2000 120\<rparr>,
             \<lparr>role = ascii ''assistant'', content = replicate 2090 121\<rparr>]]"]
  by (auto simp: suffix_def)

text \<open>
  Claim C7. When the identity is a key of the table, \<open>clear_history\<close> sets its history
  to the empty list and leaves the set of keys as it is, and the next append starts a
  new history: the appended turn alone, or nothing when its content is longer than 4096.
  When the identity is not a key, \<open>clear_history\<close> returns the table unchanged.
\<close>

theorem clear_history_keeps_key:
  "(\<forall>h. tbl u = Some h \<longrightarrow>
        clear_history u tbl = tbl(u \<mapsto> [])
      \<and> clear_history u tbl u = Some []
      \<and> dom (clear_history u tbl) = dom tbl
      \<and> append_history u c r (clear_history u tbl) =
          (Inr (if length c \<le> 4096 then [\<lparr>role = r, content = c\<rparr>] else []),
           tbl(u \<mapsto> (if length c \<le> 4096 then [\<lparr>role = r, content = c\<rparr>] else []))))
   \<and> (tbl u = None \<longrightarrow> clear_history u tbl = tbl)"
  by (auto simp: clear_history_def append_history_eq Let_def)

theorem clear_history_keeps_key_witness:
  "clear_history (Some (ascii ''alice''))
     [Some (ascii ''alice'') \<mapsto> [\<lparr>role = ascii ''user'', content = ascii ''Hello''\<rparr>]]
     (Some (ascii ''alice'')) = Some []
   \<and> fst (append_history (Some (ascii ''alice'')) (ascii ''Again'') (ascii ''user'')
         (clear_history (Some (ascii ''alice''))
            [Some (ascii ''alice'') \<mapsto> [\<lparr>role = ascii ''user'', content = ascii ''Hello''\<rparr>]]))
       = Inr [\<lparr>role = ascii ''user'', content = ascii ''Again''\<rparr>]
   \<and> clear_history (Some (ascii ''alice'')) Map.empty (Some (ascii ''alice'')) = (None :: turn list option)"
proof -
  let ?u = "Some (ascii ''alice'')"
  let ?tbl = "[?u \<mapsto> [\<lparr>role = ascii ''user'', content = ascii ''Hello''\<rparr>]]"
  have present: "?tbl ?u = Some [\<lparr>role = ascii ''user'', content = ascii ''Hello''\<rparr>]"
    by simp
  have absent: "(Map.empty :: table) ?u = None"
    by simp
  from clear_history_keeps_key [of ?tbl ?u "ascii ''Again''" "ascii ''user''"] present
  have emptied: "clear_history ?u ?tbl ?u = Some []"
    and again: "append_history ?u (ascii ''Again'') (ascii ''user'') (clear_history ?u ?tbl) =
          (Inr (if length (ascii ''Again'') \<le> 4096
                then [\<lparr>role = ascii ''user'', content = ascii ''Again''\<rparr>] else []),
           ?tbl(?u \<mapsto> (if length (ascii ''Again'') \<le> 4096
                then [\<lparr>role = ascii ''user'', content = ascii ''Again''\<rparr>] else [])))"
    by blast+
  from clear_history_keeps_key [of "Map.empty :: table" ?u "ascii ''Again''" "ascii ''user''"] absent
  have noop: "clear_history ?u (Map.empty :: table) = Map.empty"
    by blast
  from emptied again noop show ?thesis by simp
qed

text \<open>
  Claim C10. For distinct identities \<open>a\<close> and \<open>b\<close>, neither \<open>append_history a\<close> nor
  \<open>clear_history a\<close> changes the entry of \<open>b\<close>: its history when it has one, its
  absence when it has none.
\<close>

theorem other_identity_unchanged:
  "b \<noteq> a \<Longrightarrow> snd (append_history a c r tbl) b = tbl b \<and> clear_history a tbl b = tbl b"
  by (simp add: append_history_eq Let_def clear_history_def split: option.splits)

theorem other_identity_unchanged_witness:
  "Some (ascii ''bob'') \<noteq> Some (ascii ''alice'')
   \<and> snd (append_history (Some (ascii ''alice'')) (ascii ''Hello'') (ascii ''user'')
         [Some (ascii ''bob'') \<mapsto> [\<lparr>role = ascii ''user'', content = ascii ''Hi''\<rparr>]])
       (Some (ascii ''bob'')) = Some [\<lparr>role = ascii ''user'', content = ascii ''Hi''\<rparr>]
   \<and> clear_history (Some (ascii ''alice''))
         [Some (ascii ''bob'') \<mapsto> [\<lparr>role = ascii ''user'', content = ascii ''Hi''\<rparr>]]
       (Some (ascii ''bob'')) = Some [\<lparr>role = ascii ''user'', content = ascii ''Hi''\<rparr>]"
proof -
  have ne: "Some (ascii ''bob'') \<noteq> Some (ascii ''alice'')" by simp
  show ?thesis
    using ne other_identity_unchanged [OF ne, of "ascii ''Hello''" "ascii ''user''"
      "[Some (ascii ''bob'') \<mapsto> [\<lparr>role = ascii ''user'', content = ascii ''Hi''\<rparr>]]"]
    by simp
qed

section \<open>Properties of access control and the event classifier\<close>

text \<open>
  Claim C3. \<open>is_allowed_user\<close> holds of an identity string exactly when the allow-list
  is empty or the string is in it; a sender without a username passes only an empty
  allow-list. With an empty allow-list everyone passes, with a non-empty one exactly the
  listed identities.
\<close>

theorem is_allowed_user_iff:
  "(is_allowed_user allowed (Some name) \<longleftrightarrow> allowed = [] \<or> name \<in> set allowed)
   \<and> (is_allowed_user allowed None \<longleftrightarrow> allowed = [])
   \<and> (allowed = [] \<longrightarrow> is_allowed_user allowed u)
   \<and> (allowed \<noteq> [] \<longrightarrow> (is_allowed_user allowed u \<longleftrightarrow> (\<exists>name \<in> set allowed. u = Some name)))"
  by (auto simp: is_allowed_user_def)

theorem is_allowed_user_iff_witness:
  "is_allowed_user [] (Some (ascii ''eve''))
   \<and> is_allowed_user [ascii ''alice'', ascii ''bob''] (Some (ascii ''bob''))
   \<and> \<not> is_allowed_user [ascii ''alice'', ascii ''bob''] (Some (ascii ''eve''))
   \<and> \<not> is_allowed_user [ascii ''alice'', ascii ''bob''] None"
  using is_allowed_user_iff [of "[]" "ascii ''eve''" "Some (ascii ''eve'')"]
    is_allowed_user_iff [of "[ascii ''alice'', ascii ''bob'']" "ascii ''bob''" "Some (ascii ''eve'')"]
  by auto


lemma resolve_username_init:
  "resolve_username (init_DirectOrMentionInGroup bot_name) = bot_name"
  by (simp add: resolve_username_def init_DirectOrMentionInGroup_def)

lemma resolve_username_filter:
  "resolve_username (snd (filter_DirectOrMentionInGroup self upd)) = resolve_username self"
  by (simp add: filter_DirectOrMentionInGroup_def resolve_username_def Let_def
        split: option.splits)



section \<open>Properties of the completion orchestrator\<close>

lemma then_do_Inr: "m w = (Inr x, w') \<Longrightarrow> then_do m f w = f x w'"
  by (simp add: then_do_def)

lemma then_do_apply:
  "then_do m f w = (case m w of (Inl e, w') \<Rightarrow> (Inl e, w') | (Inr x, w') \<Rightarrow> f x w')"
  by (simp add: then_do_def)

lemma fallback_choices_nonempty: "\<forall>s \<in> set fallback_choices. s \<noteq> []"
  by (simp add: fallback_choices_def)

lemma length_fallback_choices: "length fallback_choices = 15"
  by (simp add: fallback_choices_def)

lemma random_choice_seq_fallback:
  "\<exists>s. random_choice_seq r fallback_choices = Inr s \<and> s \<in> set fallback_choices \<and> s \<noteq> []"
proof -
  have len: "r mod length fallback_choices < length fallback_choices"
    by (simp add: length_fallback_choices)
  then have mem: "fallback_choices ! (r mod length fallback_choices) \<in> set fallback_choices"
    by (rule nth_mem)
  moreover have "fallback_choices \<noteq> []"
    using length_fallback_choices by auto
  ultimately show ?thesis
    using fallback_choices_nonempty by (simp add: random_choice_seq_def)
qed

lemma generate_gpt_response_unfold:
  "generate_gpt_response env u w =
     (let messages = (case store w u of None \<Rightarrow> [] | Some l \<Rightarrow> l);
          w' = w\<lparr>trace := trace w @ [ChatCompletionCreate messages]\<rparr>
      in (case ChatCompletion_create env (trace w) messages of
            Inl e \<Rightarrow> random_choice_seq (random_draw env (trace w')) fallback_choices
          | Inr c \<Rightarrow>
              (case first_content c of
                 Inl e \<Rightarrow> random_choice_seq (random_draw env (trace w')) fallback_choices
               | Inr s \<Rightarrow> Inr s),
          w'))"
  by (simp add: generate_gpt_response_def then_do_def issue_def lift_def Let_def split: sum.splits)

lemma generate_gpt_response_shape:
  "\<exists>s. generate_gpt_response env u w =
          (Inr s, w\<lparr>trace := trace w @
                     [ChatCompletionCreate (case store w u of None \<Rightarrow> [] | Some l \<Rightarrow> l)]\<rparr>)"
  using random_choice_seq_fallback
    [of "random_draw env (trace w @ [ChatCompletionCreate (case store w u of None \<Rightarrow> [] | Some l \<Rightarrow> l)])"]
  by (auto simp: generate_gpt_response_unfold Let_def split: sum.splits)

text \<open>
  Claim C5. \<open>generate_gpt_response\<close> always returns a string and never an exception,
  and leaves \<open>messages_list\<close> as it is. When the remote call raises, or returns a
  completion from which no content can be read, the string is one of
  \<open>fallback_choices\<close> and is not empty. When the call returns a single candidate with
  a content, the string is that content.
\<close>

theorem generate_gpt_response_never_raises:
  "\<exists>s. fst (generate_gpt_response env u w) = Inr s
     \<and> store (snd (generate_gpt_response env u w)) = store w
     \<and> ((\<exists>e. ChatCompletion_create env (trace w)
                (case store w u of None \<Rightarrow> [] | Some l \<Rightarrow> l) = Inl e)
          \<longrightarrow> s \<in> set fallback_choices \<and> s \<noteq> [])
     \<and> (\<forall>c e. ChatCompletion_create env (trace w)
                (case store w u of None \<Rightarrow> [] | Some l \<Rightarrow> l) = Inr c \<and> first_content c = Inl e
          \<longrightarrow> s \<in> set fallback_choices \<and> s \<noteq> [])
     \<and> (\<forall>ch txt. ChatCompletion_create env (trace w)
                (case store w u of None \<Rightarrow> [] | Some l \<Rightarrow> l) = Inr (Completion [ch])
              \<and> choice_message ch (ascii ''content'') = Some txt
          \<longrightarrow> s = txt)"
proof -
  define msgs where "msgs = (case store w u of None \<Rightarrow> [] | Some l \<Rightarrow> l)"
  define w' where "w' = w\<lparr>trace := trace w @ [ChatCompletionCreate msgs]\<rparr>"
  obtain fb where fb: "random_choice_seq (random_draw env (trace w')) fallback_choices = Inr fb"
    "fb \<in> set fallback_choices" "fb \<noteq> []"
    using random_choice_seq_fallback by blast
  show ?thesis
  proof (cases "ChatCompletion_create env (trace w) msgs")
    case (Inl e)
    then have "generate_gpt_response env u w = (Inr fb, w')"
      using fb(1) by (simp add: generate_gpt_response_unfold Let_def msgs_def w'_def)
    then show ?thesis using Inl fb(2,3) by (simp add: msgs_def w'_def)
  next
    case (Inr c)
    show ?thesis
    proof (cases "first_content c")
      case (Inl e)
      then have "generate_gpt_response env u w = (Inr fb, w')"
        using fb(1) Inr by (simp add: generate_gpt_response_unfold Let_def msgs_def w'_def)
      then show ?thesis using Inl Inr fb(2,3)
        by (auto simp: msgs_def w'_def first_content_def)
    next
      case (Inr s)
      then have "generate_gpt_response env u w = (Inr s, w')"
        using \<open>ChatCompletion_create env (trace w) msgs = Inr c\<close>
        by (simp add: generate_gpt_response_unfold Let_def msgs_def w'_def)
      then show ?thesis using Inr \<open>ChatCompletion_create env (trace w) msgs = Inr c\<close>
        by (auto simp: msgs_def w'_def first_content_def)
    qed
  qed
qed

theorem generate_gpt_response_never_raises_witness:
  "(\<exists>s. fst (generate_gpt_response
               (scenario_env [] (Inl (ExternalError ''Timeout'')) (Inl (ExternalError ''unused'')))
               (Some (ascii ''alice'')) fresh_world) = Inr s
        \<and> s \<in> set fallback_choices \<and> s \<noteq> [])
   \<and> fst (generate_gpt_response
            (scenario_env []
               (Inr (Completion [Choice [ascii ''content'' \<mapsto> ascii ''Hi there'']]))
               (Inl (ExternalError ''unused'')))
            (Some (ascii ''alice'')) fresh_world) = Inr (ascii ''Hi there'')"
  using generate_gpt_response_never_raises
          [of "scenario_env [] (Inl (ExternalError ''Timeout'')) (Inl (ExternalError ''unused''))"
              "Some (ascii ''alice'')" fresh_world]
        generate_gpt_response_never_raises
          [of "scenario_env []
                 (Inr (Completion [Choice [ascii ''content'' \<mapsto> ascii ''Hi there'']]))
                 (Inl (ExternalError ''unused''))"
              "Some (ascii ''alice'')" fresh_world]
  by (auto simp: scenario_env_def fresh_world_def)

section \<open>Properties of the handlers\<close>

lemma handle_allowed_usernames_denied:
  assumes "sender_username upd = Inr u" and "\<not> is_allowed_user (allowed_usernames env) u"
  shows "handle_allowed_usernames env upd w =
           ((case send_message env (trace w) (chat_ident (effective_chat upd)) rejection_text of
               Inl e \<Rightarrow> Inl e | Inr _ \<Rightarrow> Inr False),
            w\<lparr>trace := trace w @ [SendMessage (chat_ident (effective_chat upd)) rejection_text]\<rparr>)"
  using assms
  by (simp add: handle_allowed_usernames_def then_do_def lift_def bot_send_message_def
        issue_def return_def split: sum.splits)

lemma handle_allowed_usernames_allowed:
  assumes "sender_username upd = Inr u" and "is_allowed_user (allowed_usernames env) u"
  shows "handle_allowed_usernames env upd w = (Inr True, w)"
  using assms
  by (simp add: handle_allowed_usernames_def then_do_def lift_def return_def)

lemma do_append_history_apply:
  "do_append_history u c r w =
     (let kept = longest_suffix_within 4096
                   ((case store w u of None \<Rightarrow> [] | Some l \<Rightarrow> l) @ [\<lparr>role = r, content = c\<rparr>])
      in (Inr kept, w\<lparr>store := (store w)(u \<mapsto> kept)\<rparr>))"
  by (simp add: do_append_history_def append_history_eq Let_def)

lemma handle_allowed_usernames_frame:
  "store (snd (handle_allowed_usernames env upd w)) = store w
   \<and> (\<exists>calls. trace (snd (handle_allowed_usernames env upd w)) = trace w @ calls
        \<and> (\<forall>msgs. ChatCompletionCreate msgs \<notin> set calls))"
  by (auto simp: handle_allowed_usernames_def then_do_apply lift_def bot_send_message_def
        issue_def return_def split: sum.splits)

lemma reset_history_allowed:
  assumes "sender_username upd = Inr u" and "is_allowed_user (allowed_usernames env) u"
  shows "store (snd (reset_history env upd w)) = clear_history u (store w)"
  using assms
  by (simp add: reset_history_def then_do_apply handle_allowed_usernames_allowed [OF assms]
        lift_def do_clear_history_def bot_send_message_def issue_def split: sum.splits)

text \<open>
  Claim C6. When the allow-list is not empty and does not contain the sender, each of
  the three handlers leaves \<open>messages_list\<close> unchanged and issues exactly one call, the
  sending of the rejection text to the chat of the event: no completion call is made.
\<close>

theorem denied_sender_frame:
  assumes "sender_username upd = Inr u"
    and "allowed_usernames env \<noteq> []"
    and "u \<notin> set (map Some (allowed_usernames env))"
  shows "store (snd (process_text_message env upd w)) = store w
       \<and> trace (snd (process_text_message env upd w)) =
           trace w @ [SendMessage (chat_ident (effective_chat upd)) rejection_text]
       \<and> store (snd (process_audio_message env upd w)) = store w
       \<and> trace (snd (process_audio_message env upd w)) =
           trace w @ [SendMessage (chat_ident (effective_chat upd)) rejection_text]
       \<and> store (snd (reset_history env upd w)) = store w
       \<and> trace (snd (reset_history env upd w)) =
           trace w @ [SendMessage (chat_ident (effective_chat upd)) rejection_text]"
proof -
  from assms(2,3) have denied: "\<not> is_allowed_user (allowed_usernames env) u"
    by (simp add: is_allowed_user_def)
  note gate = handle_allowed_usernames_denied [OF assms(1) denied, of w]
  have t: "store (snd (process_text_message env upd w)) = store w
       \<and> trace (snd (process_text_message env upd w)) =
           trace w @ [SendMessage (chat_ident (effective_chat upd)) rejection_text]"
    by (simp add: process_text_message_def then_do_apply gate return_def split: sum.splits)
  have a: "store (snd (process_audio_message env upd w)) = store w
       \<and> trace (snd (process_audio_message env upd w)) =
           trace w @ [SendMessage (chat_ident (effective_chat upd)) rejection_text]"
    by (simp add: process_audio_message_def then_do_apply gate return_def split: sum.splits)
  have r: "store (snd (reset_history env upd w)) = store w
       \<and> trace (snd (reset_history env upd w)) =
           trace w @ [SendMessage (chat_ident (effective_chat upd)) rejection_text]"
    by (simp add: reset_history_def then_do_apply gate return_def split: sum.splits)
  from t a r show ?thesis by simp
qed

theorem denied_sender_frame_witness:
  "store (snd (process_text_message
                 (scenario_env [ascii ''alice''] (Inl (ExternalError ''unused''))
                    (Inl (ExternalError ''unused'')))
                 (scenario_update ''eve'' (Some (ascii ''hello'')) None ''private'') fresh_world))
     (Some (ascii ''eve'')) = None
   \<and> trace (snd (process_text_message
                 (scenario_env [ascii ''alice''] (Inl (ExternalError ''unused''))
                    (Inl (ExternalError ''unused'')))
                 (scenario_update ''eve'' (Some (ascii ''hello'')) None ''private'') fresh_world))
       = [SendMessage 42 rejection_text]"
proof -
  let ?env = "scenario_env [ascii ''alice''] (Inl (ExternalError ''unused''))
                (Inl (ExternalError ''unused''))"
  let ?upd = "scenario_update ''eve'' (Some (ascii ''hello'')) None ''private''"
  have 1: "sender_username ?upd = Inr (Some (ascii ''eve''))"
    by (simp add: scenario_update_def sender_username_def)
  have 2: "allowed_usernames ?env \<noteq> []"
    by (simp add: scenario_env_def)
  have 3: "Some (ascii ''eve'') \<notin> set (map Some (allowed_usernames ?env))"
    by (simp add: scenario_env_def)
  show ?thesis
    using denied_sender_frame [OF 1 2 3, of fresh_world]
    by (simp add: fresh_world_def scenario_update_def)
qed

lemma get_audio_transcription_frame:
  "store (snd (get_audio_transcription env upd w)) = store w
   \<and> (\<exists>calls. trace (snd (get_audio_transcription env upd w)) = trace w @ calls
        \<and> (\<forall>msgs. ChatCompletionCreate msgs \<notin> set calls))"
  by (auto simp: get_audio_transcription_def then_do_apply issue_def return_def raise_def
        split: sum.splits option.splits)

text \<open>
  Claim C9. When the transcription step of a voice event raises \<open>e\<close>, the voice
  handler leaves \<open>messages_list\<close> unchanged and issues no completion call; for a sender
  that passes access control, so that the step is reached, the handler ends with \<open>e\<close>.
\<close>

theorem transcription_error_aborts:
  assumes "fst (get_audio_transcription env upd w) = Inl e"
  shows "store (snd (process_audio_message env upd w)) = store w
       \<and> (\<forall>msgs. ChatCompletionCreate msgs \<notin>
             set (drop (length (trace w)) (trace (snd (process_audio_message env upd w)))))
       \<and> (\<forall>u. sender_username upd = Inr u \<and> is_allowed_user (allowed_usernames env) u
             \<longrightarrow> fst (process_audio_message env upd w) = Inl e)"
proof -
  obtain g wg where gate: "handle_allowed_usernames env upd w = (g, wg)"
    by (cases "handle_allowed_usernames env upd w")
  from handle_allowed_usernames_frame [of env upd w] gate
  obtain calls where wg: "store wg = store w" "trace wg = trace w @ calls"
    "\<forall>msgs. ChatCompletionCreate msgs \<notin> set calls" by auto
  obtain r w' where run: "get_audio_transcription env upd w = (r, w')"
    by (cases "get_audio_transcription env upd w")
  with assms have r: "r = Inl e" by simp
  from get_audio_transcription_frame [of env upd w] run
  obtain calls' where w': "store w' = store w" "trace w' = trace w @ calls'"
    "\<forall>msgs. ChatCompletionCreate msgs \<notin> set calls'" by auto
  have allowed: "process_audio_message env upd w = (Inl e, w')"
    if "sender_username upd = Inr u" "is_allowed_user (allowed_usernames env) u" for u
    by (simp add: process_audio_message_def then_do_apply
          handle_allowed_usernames_allowed [OF that] run r)
  have stopped: "snd (process_audio_message env upd w) = wg" if "g \<noteq> Inr True"
    using that gate
    by (cases g) (auto simp: process_audio_message_def then_do_apply return_def)
  have passed: "snd (process_audio_message env upd w) = w'" if "g = Inr True"
  proof -
    from that gate have "wg = w"
      by (auto simp: handle_allowed_usernames_def then_do_apply lift_def bot_send_message_def
            issue_def return_def split: sum.splits if_splits)
    with that gate show ?thesis
      by (simp add: process_audio_message_def then_do_apply run r)
  qed
  have frame: "store (snd (process_audio_message env upd w)) = store w
       \<and> (\<forall>msgs. ChatCompletionCreate msgs \<notin>
             set (drop (length (trace w)) (trace (snd (process_audio_message env upd w)))))"
  proof (cases "g = Inr True")
    case True
    with passed w' show ?thesis by simp
  next
    case False
    with stopped wg show ?thesis by simp
  qed
  with allowed show ?thesis by simp
qed

theorem transcription_error_aborts_witness:
  "fst (process_audio_message
          (scenario_env [] (Inr (Completion [])) (Inl (ExternalError ''APIError'')))
          (scenario_update ''alice'' None None ''private'') fresh_world)
     = Inl (ExternalError ''APIError'')
   \<and> store (snd (process_audio_message
          (scenario_env [] (Inr (Completion [])) (Inl (ExternalError ''APIError'')))
          (scenario_update ''alice'' None None ''private'') fresh_world))
       (Some (ascii ''alice'')) = None"
proof -
  let ?env = "scenario_env [] (Inr (Completion [])) (Inl (ExternalError ''APIError''))"
  let ?upd = "scenario_update ''alice'' None None ''private''"
  have 1: "sender_username ?upd = Inr (Some (ascii ''alice''))"
    by (simp add: scenario_update_def sender_username_def)
  have 2: "is_allowed_user (allowed_usernames ?env) (Some (ascii ''alice''))"
    by (simp add: scenario_env_def is_allowed_user_def)
  have 3: "fst (get_audio_transcription ?env ?upd fresh_world) = Inl (ExternalError ''APIError'')"
    by (simp add: get_audio_transcription_def then_do_def issue_def scenario_env_def)
  from transcription_error_aborts [OF 3] 1 2
  have "fst (process_audio_message ?env ?upd fresh_world) = Inl (ExternalError ''APIError'')"
    and "store (snd (process_audio_message ?env ?upd fresh_world)) = store fresh_world"
    by blast+
  then show ?thesis
    by (simp add: fresh_world_def)
qed

text \<open>
  What the text handler does for a sender that passes access control, once the
  transport has accepted the thinking notice: it appends one user turn with content
  \<open>x\<close>. For a reply to a message that carries text, \<open>x\<close> is \<open>"> "\<close>, the original
  text, a space, two newlines and the new text; for an event that is not a reply,
  \<open>x\<close> is the event's text. The history that \<open>append_history\<close> returns for that turn is
  what the completion call receives, and the final table is the one after that append
  and the append of the response as assistant turn.
\<close>

lemma process_text_message_user_turn:
  assumes "message upd = Some m"
    and "from_user m = Some sender"
    and "is_allowed_user (allowed_usernames env) (user_username sender)"
    and "send_message env (trace w) (chat_ident (effective_chat upd)) [0x1F914] = Inr thinking"
    and "msg_text m = Some new_text"
    and "case reply_to_message m of
           None \<Rightarrow> x = new_text
         | Some orig \<Rightarrow>
             (case msg_text orig of
                None \<Rightarrow> False
              | Some quoted \<Rightarrow> x = ascii ''> '' @ quoted @ ascii '' '' @ [10, 10] @ new_text)"
  shows "\<exists>kept response.
           fst (append_history (user_username sender) x (ascii ''user'') (store w)) = Inr kept
         \<and> take (length (trace w) + 2) (trace (snd (process_text_message env upd w))) =
             trace w @ [SendMessage (chat_ident (effective_chat upd)) [0x1F914],
                        ChatCompletionCreate kept]
         \<and> store (snd (process_text_message env upd w)) =
             snd (append_history (user_username sender) response (ascii ''assistant'')
                    (snd (append_history (user_username sender) x (ascii ''user'') (store w))))"
proof -
  define u where "u = user_username sender"
  define cid where "cid = chat_ident (effective_chat upd)"
  define w1 where "w1 = w\<lparr>trace := trace w @ [SendMessage cid [0x1F914]]\<rparr>"
  define kept where "kept = longest_suffix_within 4096
     ((case store w u of None \<Rightarrow> [] | Some l \<Rightarrow> l) @ [\<lparr>role = ascii ''user'', content = x\<rparr>])"
  define w2 where "w2 = w1\<lparr>store := (store w)(u \<mapsto> kept)\<rparr>"
  define w3 where "w3 = w2\<lparr>trace := trace w2 @ [ChatCompletionCreate kept]\<rparr>"
  have sender: "sender_username upd = Inr u"
    using assms(1,2) by (simp add: sender_username_def u_def)
  have gate: "handle_allowed_usernames env upd w = (Inr True, w)"
    using handle_allowed_usernames_allowed [OF sender] assms(3) by (simp add: u_def)
  have ack: "bot_send_message env cid [0x1F914] w = (Inr thinking, w1)"
    using assms(4) by (simp add: bot_send_message_def issue_def w1_def cid_def)
  have eff: "effective_text m = Inr x"
    using assms(5,6) by (auto simp: effective_text_def newline_def split: option.splits)
  have app1: "do_append_history u x (ascii ''user'') w1 = (Inr kept, w2)"
    by (simp add: do_append_history_apply Let_def kept_def w2_def w1_def)
  obtain response where gen: "generate_gpt_response env u w2 = (Inr response, w3)"
    using generate_gpt_response_shape [of env u w2] by (auto simp: w2_def w3_def)
  define kept2 where "kept2 = longest_suffix_within 4096
     (kept @ [\<lparr>role = ascii ''assistant'', content = response\<rparr>])"
  define w4 where "w4 = w3\<lparr>store := (store w3)(u \<mapsto> kept2)\<rparr>"
  have app2: "do_append_history u response (ascii ''assistant'') w3 = (Inr kept2, w4)"
    by (simp add: do_append_history_apply Let_def kept2_def w4_def w3_def w2_def)
  have rest: "\<exists>calls. store w' = store w4 \<and> trace w' = trace w4 @ calls"
    if "w' = snd (then_do (bot_deleteMessage env thinking (chat_id m)) (\<lambda>_.
              then_do (bot_send_message env cid response) (\<lambda>_. return ())) w4)" for w'
    using that
    by (auto simp: then_do_apply bot_deleteMessage_def bot_send_message_def issue_def return_def
          split: sum.splits)
  have msg: "lift (get_message upd) w1 = (Inr m, w1)"
    using assms(1) by (simp add: lift_def get_message_def)
  have eff': "lift (effective_text m) w1 = (Inr x, w1)"
    using eff by (simp add: lift_def)
  have snd': "lift (sender_username upd) w1 = (Inr u, w1)"
    using sender by (simp add: lift_def)
  have run: "process_text_message env upd w =
      then_do (bot_deleteMessage env thinking (chat_id m)) (\<lambda>_.
              then_do (bot_send_message env cid response) (\<lambda>_. return ())) w4"
    unfolding process_text_message_def
    by (simp add: then_do_Inr [of "handle_allowed_usernames env upd" w, OF gate]
          then_do_Inr [of "bot_send_message env (chat_ident (effective_chat upd)) [0x1F914]" w,
            OF ack [unfolded cid_def]]
          then_do_Inr [of "lift (get_message upd)" w1, OF msg]
          then_do_Inr [of "lift (effective_text m)" w1, OF eff']
          then_do_Inr [of "lift (sender_username upd)" w1, OF snd']
          then_do_Inr [of "do_append_history u x (ascii ''user'')" w1, OF app1]
          then_do_Inr [of "generate_gpt_response env u" w2, OF gen]
          then_do_Inr [of "do_append_history u response (ascii ''assistant'')" w3, OF app2]
          cid_def)
  from rest [OF refl] run obtain calls where
    fin: "store (snd (process_text_message env upd w)) = store w4"
         "trace (snd (process_text_message env upd w)) = trace w4 @ calls"
    by auto
  have tr4: "trace w4 = trace w @ [SendMessage cid [0x1F914], ChatCompletionCreate kept]"
    by (simp add: w4_def w3_def w2_def w1_def)
  have st4: "store w4 = snd (append_history u response (ascii ''assistant'')
                    (snd (append_history u x (ascii ''user'') (store w))))"
    by (simp add: w4_def w3_def w2_def w1_def append_history_eq Let_def kept2_def kept_def)
  have k: "fst (append_history u x (ascii ''user'') (store w)) = Inr kept"
    by (simp add: append_history_eq Let_def kept_def)
  show ?thesis
    using k fin tr4 st4 unfolding u_def cid_def by auto
qed

lemma process_text_message_user_turn_example:
  "take 2 (trace (snd (process_text_message
       (scenario_env [ascii ''alice''] (Inr (Completion [Choice [ascii ''content'' \<mapsto> ascii ''Welcome'']]))
          (Inl (ExternalError ''unused'')))
       (scenario_update ''alice'' (Some (ascii ''Thanks''))
          (Some (Message (Some (ascii ''Hi there'')) (Some (User (Some (ascii ''relay_bot'')))) None 42))
          ''private'')
       fresh_world)))
     = [SendMessage 42 [0x1F914],
        ChatCompletionCreate
          [\<lparr>role = ascii ''user'',
            content = ascii ''> '' @ ascii ''Hi there'' @ ascii '' '' @ [10, 10] @ ascii ''Thanks''\<rparr>]]
   \<and> take 2 (trace (snd (process_text_message
       (scenario_env [ascii ''alice''] (Inr (Completion [Choice [ascii ''content'' \<mapsto> ascii ''Hi there'']]))
          (Inl (ExternalError ''unused'')))
       (scenario_update ''alice'' (Some (ascii ''Hello'')) None ''private'')
       fresh_world)))
     = [SendMessage 42 [0x1F914],
        ChatCompletionCreate [\<lparr>role = ascii ''user'', content = ascii ''Hello''\<rparr>]]"
proof -
  let ?env1 = "scenario_env [ascii ''alice'']
     (Inr (Completion [Choice [ascii ''content'' \<mapsto> ascii ''Welcome'']]))
     (Inl (ExternalError ''unused''))"
  let ?env2 = "scenario_env [ascii ''alice'']
     (Inr (Completion [Choice [ascii ''content'' \<mapsto> ascii ''Hi there'']]))
     (Inl (ExternalError ''unused''))"
  let ?orig = "Message (Some (ascii ''Hi there'')) (Some (User (Some (ascii ''relay_bot'')))) None 42"
  let ?m1 = "Message (Some (ascii ''Thanks'')) (Some (User (Some (ascii ''alice'')))) (Some ?orig) 42"
  let ?m2 = "Message (Some (ascii ''Hello'')) (Some (User (Some (ascii ''alice'')))) None 42"
  let ?upd1 = "scenario_update ''alice'' (Some (ascii ''Thanks'')) (Some ?orig) ''private''"
  let ?upd2 = "scenario_update ''alice'' (Some (ascii ''Hello'')) None ''private''"
  let ?x1 = "ascii ''> '' @ ascii ''Hi there'' @ ascii '' '' @ [10, 10] @ ascii ''Thanks''"
  have a1: "message ?upd1 = Some ?m1" and a2: "message ?upd2 = Some ?m2"
    by (simp_all add: scenario_update_def)
  have b1: "from_user ?m1 = Some (User (Some (ascii ''alice'')))"
    and b2: "from_user ?m2 = Some (User (Some (ascii ''alice'')))"
    by simp_all
  have c1: "is_allowed_user (allowed_usernames ?env1) (user_username (User (Some (ascii ''alice''))))"
    and c2: "is_allowed_user (allowed_usernames ?env2) (user_username (User (Some (ascii ''alice''))))"
    by (simp_all add: scenario_env_def is_allowed_user_def)
  have d1: "send_message ?env1 (trace fresh_world) (chat_ident (effective_chat ?upd1)) [0x1F914] = Inr 0"
    and d2: "send_message ?env2 (trace fresh_world) (chat_ident (effective_chat ?upd2)) [0x1F914] = Inr 0"
    by (simp_all add: scenario_env_def fresh_world_def)
  have e1: "msg_text ?m1 = Some (ascii ''Thanks'')" and e2: "msg_text ?m2 = Some (ascii ''Hello'')"
    by simp_all
  have f1: "case reply_to_message ?m1 of
           None \<Rightarrow> ?x1 = ascii ''Thanks''
         | Some orig \<Rightarrow>
             (case msg_text orig of
                None \<Rightarrow> False
              | Some quoted \<Rightarrow> ?x1 = ascii ''> '' @ quoted @ ascii '' '' @ [10, 10] @ ascii ''Thanks'')"
    by simp
  have f2: "case reply_to_message ?m2 of
           None \<Rightarrow> ascii ''Hello'' = ascii ''Hello''
         | Some orig \<Rightarrow>
             (case msg_text orig of
                None \<Rightarrow> False
              | Some quoted \<Rightarrow> ascii ''Hello'' = ascii ''> '' @ quoted @ ascii '' '' @ [10, 10] @ ascii ''Hello'')"
    by simp
  have k1: "fst (append_history (Some (ascii ''alice'')) ?x1 (ascii ''user'') (store fresh_world))
              = Inr [\<lparr>role = ascii ''user'', content = ?x1\<rparr>]"
    by (simp add: append_history_eq Let_def fresh_world_def)
  have k2: "fst (append_history (Some (ascii ''alice'')) (ascii ''Hello'') (ascii ''user'') (store fresh_world))
              = Inr [\<lparr>role = ascii ''user'', content = ascii ''Hello''\<rparr>]"
    by (simp add: append_history_eq Let_def fresh_world_def)
  from process_text_message_user_turn [OF a1 b1 c1 d1 e1 f1] k1
  have r1: "take 2 (trace (snd (process_text_message ?env1 ?upd1 fresh_world)))
     = [SendMessage 42 [0x1F914], ChatCompletionCreate [\<lparr>role = ascii ''user'', content = ?x1\<rparr>]]"
    by (auto simp: fresh_world_def scenario_update_def numeral_2_eq_2)
  from process_text_message_user_turn [OF a2 b2 c2 d2 e2 f2] k2
  have r2: "take 2 (trace (snd (process_text_message ?env2 ?upd2 fresh_world)))
     = [SendMessage 42 [0x1F914], ChatCompletionCreate [\<lparr>role = ascii ''user'', content = ascii ''Hello''\<rparr>]]"
    by (auto simp: fresh_world_def scenario_update_def numeral_2_eq_2)
  from r1 r2 show ?thesis by simp
qed

text \<open>
  A reply to a message without text (a photo, a voice message): line 77 evaluates
  \<^verbatim>\<open>"> " + None\<close>, so the handler ends with TypeError after the thinking notice,
  with no turn appended and no completion call.
\<close>

lemma process_text_message_reply_without_text:
  assumes "message upd = Some m"
    and "from_user m = Some sender"
    and "is_allowed_user (allowed_usernames env) (user_username sender)"
    and "send_message env (trace w) (chat_ident (effective_chat upd)) [0x1F914] = Inr thinking"
    and "reply_to_message m = Some orig"
    and "msg_text orig = None"
  shows "process_text_message env upd w =
           (Inl TypeError,
            w\<lparr>trace := trace w @ [SendMessage (chat_ident (effective_chat upd)) [0x1F914]]\<rparr>)"
proof -
  have sender: "sender_username upd = Inr (user_username sender)"
    using assms(1,2) by (simp add: sender_username_def)
  have gate: "handle_allowed_usernames env upd w = (Inr True, w)"
    using handle_allowed_usernames_allowed [OF sender assms(3)] .
  have eff: "effective_text m = Inl TypeError"
    using assms(5,6) by (simp add: effective_text_def)
  show ?thesis
    unfolding process_text_message_def
    using assms(1,4) eff
    by (simp add: then_do_apply gate bot_send_message_def issue_def lift_def get_message_def)
qed

text \<open>
  Claim C8. The text handler is to append, for every text event that is a reply, the
  quoted original text behind \<open>"> "\<close> and then the new text as the user turn, and the
  raw text for an event that is not a reply. For a reply to a message that has no text
  the code does not: \<open>alice\<close>, under an empty allow-list, replies \<open>Thanks\<close> to a message
  of \<open>bob\<close> without text; the handler sends the thinking notice and ends with
  TypeError, her history stays absent and no completion call is made.
\<close>

theorem process_text_message_reply_to_textless:
  "process_text_message
     (scenario_env [] (Inr (Completion [Choice [ascii ''content'' \<mapsto> ascii ''Welcome'']]))
        (Inl (ExternalError ''unused'')))
     (scenario_update ''alice'' (Some (ascii ''Thanks''))
        (Some (Message None (Some (User (Some (ascii ''bob'')))) None 42))
        ''private'')
     fresh_world
   = (Inl TypeError, \<lparr>store = Map.empty, trace = [SendMessage 42 [0x1F914]]\<rparr>)"
  by (simp add: process_text_message_def then_do_apply handle_allowed_usernames_def lift_def
        sender_username_def get_message_def effective_text_def scenario_update_def
        scenario_env_def is_allowed_user_def return_def bot_send_message_def issue_def
        fresh_world_def)

section \<open>Scenarios of the specification\<close>

text \<open>
  \<open>alice\<close> sends \<open>Hello\<close> and the completion service answers \<open>Hi there\<close>: both turns
  are in her history, and the calls are the thinking notice, the completion call with
  the user turn, the deletion of the notice and the delivery of the reply.
\<close>

lemma scenario_alice_hello:
  "process_text_message
     (scenario_env [] (Inr (Completion [Choice [ascii ''content'' \<mapsto> ascii ''Hi there'']]))
        (Inl (ExternalError ''unused'')))
     (scenario_update ''alice'' (Some (ascii ''Hello'')) None ''private'')
     fresh_world
   = (Inr (),
      \<lparr>store = [Some (ascii ''alice'') \<mapsto>
                 [\<lparr>role = ascii ''user'', content = ascii ''Hello''\<rparr>,
                  \<lparr>role = ascii ''assistant'', content = ascii ''Hi there''\<rparr>]],
       trace = [SendMessage 42 [0x1F914],
                ChatCompletionCreate [\<lparr>role = ascii ''user'', content = ascii ''Hello''\<rparr>],
                DeleteMessage 0 42,
                SendMessage 42 (ascii ''Hi there'')]\<rparr>)"
  by (simp add: process_text_message_def then_do_apply handle_allowed_usernames_def lift_def
        sender_username_def get_message_def effective_text_def scenario_update_def
        scenario_env_def is_allowed_user_def return_def bot_send_message_def
        bot_deleteMessage_def issue_def fresh_world_def do_append_history_apply
        generate_gpt_response_unfold first_content_def Let_def)

text \<open>
  The completion service fails: the reply is the fallback string that the random draw
  selects, and it is appended to the history as the assistant turn.
\<close>

lemma scenario_completion_failure:
  "process_text_message
     (scenario_env [] (Inl (ExternalError ''Timeout'')) (Inl (ExternalError ''unused'')))
     (scenario_update ''alice'' (Some (ascii ''Hello'')) None ''private'')
     fresh_world
   = (Inr (),
      \<lparr>store = [Some (ascii ''alice'') \<mapsto>
                 [\<lparr>role = ascii ''user'', content = ascii ''Hello''\<rparr>,
                  \<lparr>role = ascii ''assistant'', content = fallback_choices ! 1\<rparr>]],
       trace = [SendMessage 42 [0x1F914],
                ChatCompletionCreate [\<lparr>role = ascii ''user'', content = ascii ''Hello''\<rparr>],
                DeleteMessage 0 42,
                SendMessage 42 (fallback_choices ! 1)]\<rparr>)"
proof -
  have pick: "random_choice_seq (Suc 0) fallback_choices = Inr (fallback_choices ! Suc 0)"
    by (simp add: random_choice_seq_def length_fallback_choices) (simp add: fallback_choices_def)
  have short: "int (length (fallback_choices ! 1)) \<le> 4091"
    by (simp add: fallback_choices_def)
  show ?thesis
    using short
    by (simp add: process_text_message_def then_do_apply handle_allowed_usernames_def lift_def
        sender_username_def get_message_def effective_text_def scenario_update_def
        scenario_env_def is_allowed_user_def return_def bot_send_message_def
        bot_deleteMessage_def issue_def fresh_world_def do_append_history_apply
        generate_gpt_response_unfold pick Let_def)
qed

end
